theory Spec2Isabelle
  imports Complex_Main "HOL-Library.AList" "HOL-Library.Sublist"
begin

section \<open>Autonomous deployment orchestrator\<close>

text \<open>
  A shallow embedding of \<^verbatim>\<open>src/deployment/autonomous-deployment-orchestrator.py\<close>.

  Conventions of the embedding:
  \<^item> Python \<^verbatim>\<open>float\<close> values are exact reals here; Python \<^verbatim>\<open>int\<close> values are \<open>int\<close>.
    Rounding of binary floating point is therefore outside the model.
  \<^item> A dataclass is a record, an \<^verbatim>\<open>Enum\<close> is a datatype, its \<^verbatim>\<open>.value\<close> a function
    into strings.
  \<^item> A \<^verbatim>\<open>Dict[str, Any]\<close> that the code reads with \<^verbatim>\<open>.get\<close> or \<^verbatim>\<open>[...]\<close> is an
    association list from strings to \<open>pyval\<close>, read with \<open>map_of\<close>; keys are written
    in insertion order.
  \<^item> A raised exception is the left summand of a sum type.
  \<^item> The coroutines are run to completion one after the other, as \<^verbatim>\<open>await\<close> does
    in the source; \<^verbatim>\<open>asyncio.sleep\<close> and logging have no counterpart.
  \<^item> What the orchestrator does to the outside world (running a stage executor,
    sampling live metrics, rolling back) is recorded as a list of events.
\<close>

subsection \<open>Enumerations\<close>

datatype DeploymentStage =
  VALIDATION | BUILD | TEST | DEPLOY_DEV | DEPLOY_STAGING | DEPLOY_PRODUCTION
  | MONITORING | ROLLBACK

fun stage_value :: "DeploymentStage \<Rightarrow> string" where
  "stage_value VALIDATION = ''validation''"
| "stage_value BUILD = ''build''"
| "stage_value TEST = ''test''"
| "stage_value DEPLOY_DEV = ''deploy_development''"
| "stage_value DEPLOY_STAGING = ''deploy_staging''"
| "stage_value DEPLOY_PRODUCTION = ''deploy_production''"
| "stage_value MONITORING = ''monitoring''"
| "stage_value ROLLBACK = ''rollback''"

datatype RiskLevel = LOW | MEDIUM | HIGH | CRITICAL

subsection \<open>Python values, dictionaries and exceptions\<close>

datatype pyval =
  PNone | PBool bool | PInt int | PFloat real | PStr string | PList "pyval list"

type_synonym pydict = "(string \<times> pyval) list"

datatype exn =
  ValueError string | KeyError string | TypeError string | ExecutorFault string

text \<open>\<^verbatim>\<open>str(e)\<close>; a \<^verbatim>\<open>KeyError\<close> prints the \<^verbatim>\<open>repr\<close> of its key.\<close>

fun exn_str :: "exn \<Rightarrow> string" where
  "exn_str (ValueError m) = m"
| "exn_str (KeyError k) = [CHR 0x27] @ k @ [CHR 0x27]"
| "exn_str (TypeError m) = m"
| "exn_str (ExecutorFault m) = m"

text \<open>Truth value of an object, as \<^verbatim>\<open>not x\<close> and \<^verbatim>\<open>x and y\<close> test it.\<close>

fun truthy :: "pyval \<Rightarrow> bool" where
  "truthy PNone = False"
| "truthy (PBool b) = b"
| "truthy (PInt i) = (i \<noteq> 0)"
| "truthy (PFloat r) = (r \<noteq> 0)"
| "truthy (PStr s) = (s \<noteq> [])"
| "truthy (PList xs) = (xs \<noteq> [])"

text \<open>\<^verbatim>\<open>d.get(k, default)\<close>.\<close>

definition dict_get :: "pydict \<Rightarrow> string \<Rightarrow> pyval \<Rightarrow> pyval" where
  "dict_get d k dflt = (case map_of d k of None \<Rightarrow> dflt | Some v \<Rightarrow> v)"

text \<open>\<^verbatim>\<open>d[k]\<close>, which raises \<^verbatim>\<open>KeyError\<close> on a missing key.\<close>

definition dict_item :: "pydict \<Rightarrow> string \<Rightarrow> exn + pyval" where
  "dict_item d k = (case map_of d k of None \<Rightarrow> Inl (KeyError k) | Some v \<Rightarrow> Inr v)"

text \<open>
  \<^verbatim>\<open>v >= n\<close> for an integer literal \<open>n\<close>: booleans count as 0 and 1, and an object
  that is not a number raises \<^verbatim>\<open>TypeError\<close> with the message of the interpreter.
\<close>

definition not_supported :: "string \<Rightarrow> exn" where
  "not_supported type_name =
     TypeError ([CHR 0x27] @ ''>='' @ [CHR 0x27] @ '' not supported between instances of ''
                @ [CHR 0x27] @ type_name @ [CHR 0x27] @ '' and '' @ [CHR 0x27] @ ''int''
                @ [CHR 0x27])"

fun py_ge :: "pyval \<Rightarrow> real \<Rightarrow> exn + bool" where
  "py_ge (PBool b) n = Inr ((if b then 1 else 0) \<ge> n)"
| "py_ge (PInt i) n = Inr (real_of_int i \<ge> n)"
| "py_ge (PFloat r) n = Inr (r \<ge> n)"
| "py_ge PNone n = Inl (not_supported ''NoneType'')"
| "py_ge (PStr s) n = Inl (not_supported ''str'')"
| "py_ge (PList xs) n = Inl (not_supported ''list'')"

subsection \<open>Dataclasses\<close>

record QualityMetrics =
  test_coverage :: real
  code_quality_score :: real
  security_vulnerabilities :: int
  performance_score :: real
  reliability_score :: real
  maintainability_score :: real

record PerformanceMetrics =
  response_time_p95 :: real
  throughput :: int
  error_rate :: real
  cpu_utilization :: real
  memory_utilization :: real
  availability :: real

record SecurityAssessment =
  vulnerability_count :: int
  security_score :: real
  compliance_score :: real
  threat_level :: RiskLevel
  quantum_security_enabled :: bool
  zero_trust_validated :: bool

record RiskAssessment =
  overall_risk_score :: real
  risk_level :: RiskLevel
  risk_factors :: "string list"
  mitigation_strategies :: "string list"
  confidence_score :: real
  predictive_analysis :: "(string \<times> real) list"

record DeploymentDecision =
  decision :: string
  confidence :: real
  reasoning :: "string list"
  conditions :: "string list"
  recommended_actions :: "string list"
  autonomous_execution :: bool

text \<open>The summary that the history tracker hands out.\<close>

record HistorySummary =
  total_deployments :: nat
  success_rate :: real
  average_deployment_time :: int
  similar_deployments :: int

record DeploymentContext =
  environment :: string
  application_version :: string
  deployment_strategy :: string
  quality_metrics :: QualityMetrics
  performance_metrics :: PerformanceMetrics
  security_assessment :: SecurityAssessment
  risk_assessment :: RiskAssessment
  historical_data :: HistorySummary

subsection \<open>Configuration\<close>

text \<open>
  The YAML file is not part of the sources; the parts of it that the code reads are
  parameters: \<^verbatim>\<open>config["deployment_pipeline"]["stages"]\<close>, a list of descriptors
  with a \<^verbatim>\<open>name\<close>, and \<^verbatim>\<open>config["autonomous_decisions"]["deployment_approval"]\<close>,
  a list of rules with a \<^verbatim>\<open>condition\<close> and a \<^verbatim>\<open>confidence\<close>.
\<close>

record StageDescriptor =
  sd_name :: string

record DecisionRule =
  rule_condition :: string
  rule_confidence :: real

record Config =
  pipeline_stages :: "StageDescriptor list"
  deployment_approval :: "DecisionRule list"

subsection \<open>RiskAnalyzer\<close>

text \<open>\<^verbatim>\<open>RiskAnalyzer._generate_mitigation_strategies\<close>.\<close>

definition generate_mitigation_strategies :: "string list \<Rightarrow> string list" where
  "generate_mitigation_strategies fs =
     (if ''Low test coverage'' \<in> set fs then [''Increase test coverage before deployment''] else [])
     @ (if ''Security vulnerabilities present'' \<in> set fs then [''Fix all security vulnerabilities''] else [])
     @ (if ''High error rate'' \<in> set fs then [''Investigate and fix error causes''] else [])
     @ (if ''Low availability'' \<in> set fs then [''Improve system reliability''] else [])"

text \<open>
  \<^verbatim>\<open>RiskAnalyzer.analyze_deployment_risk\<close>. The four \<^verbatim>\<open>if\<close> statements update the pair
  of the factor list and the score in turn.
\<close>

definition risk_step :: "bool \<Rightarrow> string \<Rightarrow> real \<Rightarrow> string list \<times> real \<Rightarrow> string list \<times> real" where
  "risk_step c label w acc = (if c then (fst acc @ [label], snd acc + w) else acc)"

definition analyze_deployment_risk :: "DeploymentContext \<Rightarrow> RiskAssessment" where
  "analyze_deployment_risk context =
     (let acc0 = ([], 0);
          acc1 = risk_step (test_coverage (quality_metrics context) < 80)
                   ''Low test coverage'' 0.2 acc0;
          acc2 = risk_step (security_vulnerabilities (quality_metrics context) > 0)
                   ''Security vulnerabilities present'' 0.3 acc1;
          acc3 = risk_step (error_rate (performance_metrics context) > 0.5)
                   ''High error rate'' 0.2 acc2;
          acc4 = risk_step (availability (performance_metrics context) < 99.5)
                   ''Low availability'' 0.15 acc3;
          risk_factors = fst acc4;
          risk_score = snd acc4;
          risk_level = (if risk_score \<ge> 0.7 then HIGH
                        else if risk_score \<ge> 0.4 then MEDIUM
                        else LOW)
      in \<lparr> overall_risk_score = risk_score,
           risk_level = risk_level,
           risk_factors = risk_factors,
           mitigation_strategies = generate_mitigation_strategies risk_factors,
           confidence_score = 0.85,
           predictive_analysis = [(''failure_probability'', risk_score * 0.8)] \<rparr>)"

subsection \<open>AIDeploymentEngine: rollback strategy\<close>

text \<open>\<^verbatim>\<open>AIDeploymentEngine.determine_rollback_strategy\<close>; the partial results are not read.\<close>

definition determine_rollback_strategy ::
    "DeploymentContext \<Rightarrow> (string \<times> pydict) list \<Rightarrow> pydict" where
  "determine_rollback_strategy context partial_results =
     (if environment context = ''production''
      then [(''strategy'', PStr ''immediate''), (''reason'', PStr ''Production safety priority'')]
      else [(''strategy'', PStr ''gradual''), (''reason'', PStr ''Non-production environment'')])"

subsection \<open>AIDeploymentEngine: scores and decision\<close>

text \<open>\<^verbatim>\<open>AIDeploymentEngine._calculate_quality_score\<close>, with the weights of the source.\<close>

definition calculate_quality_score :: "QualityMetrics \<Rightarrow> real" where
  "calculate_quality_score metrics =
     (let security_score = max 0 (1.0 - (real_of_int (security_vulnerabilities metrics) / 10));
          score = 0.25 * (test_coverage metrics / 100)
                + 0.25 * code_quality_score metrics
                + 0.25 * security_score
                + 0.125 * performance_score metrics
                + 0.125 * reliability_score metrics
      in min 1.0 (max 0.0 score))"

text \<open>\<^verbatim>\<open>AIDeploymentEngine._calculate_performance_score\<close>.\<close>

definition calculate_performance_score :: "PerformanceMetrics \<Rightarrow> real" where
  "calculate_performance_score metrics =
     (let response_time_score = max 0 (1.0 - (response_time_p95 metrics / 500));
          throughput_score = min 1.0 (real_of_int (throughput metrics) / 2000);
          error_rate_score = max 0 (1.0 - (error_rate metrics / 1.0));
          availability_score = availability metrics / 100;
          score = (response_time_score + throughput_score + error_rate_score
                   + availability_score) / 4
      in min 1.0 (max 0.0 score))"

text \<open>\<^verbatim>\<open>AIDeploymentEngine._calculate_security_score\<close>.\<close>

definition calculate_security_score :: "SecurityAssessment \<Rightarrow> real" where
  "calculate_security_score assessment =
     (let base0 = security_score assessment;
          base1 = (if quantum_security_enabled assessment then base0 + 0.05 else base0);
          base_score = (if zero_trust_validated assessment then base1 + 0.05 else base1);
          vulnerability_penalty = min 0.5 (real_of_int (vulnerability_count assessment) * 0.1)
      in max 0.0 (min 1.0 (base_score - vulnerability_penalty)))"

text \<open>
  \<^verbatim>\<open>AIDeploymentEngine._evaluate_rule_condition\<close>: the condition text and the context
  are not read.
\<close>

definition evaluate_rule_condition :: "string \<Rightarrow> DeploymentContext \<Rightarrow> real \<Rightarrow> bool" where
  "evaluate_rule_condition condition context overall_score = (overall_score \<ge> 0.85)"

text \<open>The value of \<^verbatim>\<open>overall_score\<close> in \<^verbatim>\<open>make_deployment_decision\<close>.\<close>

definition overall_score :: "DeploymentContext \<Rightarrow> real" where
  "overall_score context =
     (let quality_score = calculate_quality_score (quality_metrics context);
          performance_score = calculate_performance_score (performance_metrics context);
          security_score = calculate_security_score (security_assessment context);
          risk_score = 1.0 - overall_risk_score (risk_assessment context)
      in (quality_score + performance_score + security_score + risk_score) / 4)"

text \<open>
  \<^verbatim>\<open>AIDeploymentEngine.make_deployment_decision\<close>. The \<^verbatim>\<open>for\<close> loop returns at the
  first rule whose condition evaluates to true, which is what \<open>find\<close> selects.
\<close>

definition make_deployment_decision :: "Config \<Rightarrow> DeploymentContext \<Rightarrow> DeploymentDecision" where
  "make_deployment_decision config context =
     (let overall = overall_score context;
          decision_rules = deployment_approval config
      in case find (\<lambda>rule. evaluate_rule_condition (rule_condition rule) context overall)
                decision_rules of
           Some rule \<Rightarrow>
             \<lparr> decision = ''approve'',
               confidence = rule_confidence rule,
               reasoning = [''Condition met: '' @ rule_condition rule],
               conditions = [],
               recommended_actions = [],
               autonomous_execution = True \<rparr>
         | None \<Rightarrow>
             if overall \<ge> 0.9 then
               \<lparr> decision = ''approve'',
                 confidence = overall,
                 reasoning = [''High overall quality score''],
                 conditions = [],
                 recommended_actions = [],
                 autonomous_execution = True \<rparr>
             else if overall \<ge> 0.7 then
               \<lparr> decision = ''conditional'',
                 confidence = overall,
                 reasoning = [''Moderate quality score, conditions required''],
                 conditions = [''enhanced_monitoring'', ''gradual_rollout''],
                 recommended_actions = [''Monitor key metrics closely''],
                 autonomous_execution = False \<rparr>
             else
               \<lparr> decision = ''reject'',
                 confidence = 1.0 - overall,
                 reasoning = [''Quality metrics below threshold''],
                 conditions = [],
                 recommended_actions = [''Improve test coverage'', ''Fix security issues''],
                 autonomous_execution = False \<rparr>)"

subsection \<open>AIDeploymentEngine: stage validation\<close>

text \<open>
  \<^verbatim>\<open>AIDeploymentEngine.validate_stage_success\<close>. The source returns the object found in
  the result, not its truth value; the caller tests it with \<^verbatim>\<open>not\<close>. For the test
  stage, \<^verbatim>\<open>a and b\<close> yields \<open>a\<close> when \<open>a\<close> is false and evaluates \<open>b\<close> only otherwise.
\<close>

fun validate_stage_success ::
    "DeploymentStage \<Rightarrow> pydict \<Rightarrow> DeploymentContext \<Rightarrow> exn + pyval" where
  "validate_stage_success VALIDATION result context =
     Inr (dict_get result ''validation_passed'' (PBool False))"
| "validate_stage_success BUILD result context =
     Inr (dict_get result ''build_successful'' (PBool False))"
| "validate_stage_success TEST result context =
     (let passed = dict_get result ''tests_passed'' (PBool False)
      in if \<not> truthy passed then Inr passed
         else (case py_ge (dict_get result ''test_coverage'' (PInt 0)) 85 of
                 Inl e \<Rightarrow> Inl e
               | Inr b \<Rightarrow> Inr (PBool b)))"
| "validate_stage_success stage result context =
     Inr (dict_get result ''deployment_successful'' (PBool False))"

subsection \<open>Collaborators of the orchestrator\<close>

text \<open>
  The stage executors, the metric providers and the live-metrics sources are methods
  with placeholder bodies in the source and stand for external systems. They are
  parameters of the model; \<open>builtin\<close> below holds the bodies of the source.
  A stage executor may raise. A live sample is a dictionary of numbers, taken once
  per tick of the monitoring loop, so the sample may depend on the tick; a business
  impact is read only at its \<^verbatim>\<open>severity\<close>.
\<close>

record Request =
  req_environment :: "string option"
  req_version :: "string option"
  req_strategy :: "string option"

record BusinessImpact =
  severity :: real
  impact_areas :: "string list"
  estimated_loss :: real

record Collaborators =
  collect_quality_metrics :: "Request \<Rightarrow> QualityMetrics"
  collect_performance_metrics :: "Request \<Rightarrow> PerformanceMetrics"
  perform_security_assessment :: "Request \<Rightarrow> SecurityAssessment"
  execute_validation_stage :: "DeploymentContext \<Rightarrow> exn + pydict"
  execute_build_stage :: "DeploymentContext \<Rightarrow> exn + pydict"
  execute_test_stage :: "DeploymentContext \<Rightarrow> exn + pydict"
  execute_deploy_stage :: "DeploymentStage \<Rightarrow> DeploymentContext \<Rightarrow> exn + pydict"
  setup_monitoring :: "DeploymentContext \<Rightarrow> exn + pydict"
  collect_realtime_metrics :: "nat \<Rightarrow> (string \<times> real) list"
  assess_business_impact :: "(string \<times> real) list \<Rightarrow> BusinessImpact"

definition builtin :: Collaborators where
  "builtin =
     \<lparr> collect_quality_metrics = (\<lambda>request.
         \<lparr> test_coverage = 89.5, code_quality_score = 0.92, security_vulnerabilities = 0,
           performance_score = 0.88, reliability_score = 0.91,
           maintainability_score = 0.85 \<rparr>),
       collect_performance_metrics = (\<lambda>request.
         \<lparr> response_time_p95 = 145.7, throughput = 2500, error_rate = 0.05,
           cpu_utilization = 65.2, memory_utilization = 58.7, availability = 99.97 \<rparr>),
       perform_security_assessment = (\<lambda>request.
         (let vulnerability_count = (0::int)
          in \<lparr> vulnerability_count = vulnerability_count, security_score = 0.95,
               compliance_score = 0.98,
               threat_level = (if vulnerability_count = 0 then LOW else MEDIUM),
               quantum_security_enabled = True, zero_trust_validated = True \<rparr>)),
       execute_validation_stage = (\<lambda>context.
         Inr [(''validation_passed'', PBool True), (''checks_completed'', PInt 15)]),
       execute_build_stage = (\<lambda>context.
         Inr [(''build_successful'', PBool True),
              (''artifacts_created'', PList [PStr ''frontend'', PStr ''api'', PStr ''quantum''])]),
       execute_test_stage = (\<lambda>context.
         Inr [(''tests_passed'', PBool True), (''test_coverage'', PFloat 89.5),
              (''test_count'', PInt 1247)]),
       execute_deploy_stage = (\<lambda>stage context.
         Inr [(''deployment_successful'', PBool True),
              (''strategy'', PStr (deployment_strategy context))]),
       setup_monitoring = (\<lambda>context.
         Inr [(''monitoring_enabled'', PBool True), (''dashboards_created'', PInt 5),
              (''alerts_configured'', PInt 12)]),
       collect_realtime_metrics = (\<lambda>tick.
         [(''response_time'', 120.5), (''error_rate'', 0.02), (''throughput'', 2600)]),
       assess_business_impact = (\<lambda>metrics.
         \<lparr> severity = 0.1, impact_areas = [], estimated_loss = 0 \<rparr>) \<rparr>"

subsection \<open>Events\<close>

datatype event =
  StageExecuted DeploymentStage
  | MetricsSampled nat
  | AnomalyHandled nat
  | BusinessImpactHandled nat
  | ImmediateRollback
  | GradualRollback
  | TargetedRollback pyval
  | RollbackNotified

subsection \<open>Stage execution\<close>

text \<open>
  \<^verbatim>\<open>str.replace(old, new)\<close> for a non-empty \<open>old\<close>: occurrences are replaced from left
  to right without overlap. The counter is the number of characters of a matched
  occurrence still to be skipped.
\<close>

fun replace_from :: "string \<Rightarrow> string \<Rightarrow> nat \<Rightarrow> string \<Rightarrow> string" where
  "replace_from old new k [] = []"
| "replace_from old new (Suc k) (c # cs) = replace_from old new k cs"
| "replace_from old new 0 (c # cs) =
     (if prefix old (c # cs) then new @ replace_from old new (length old - 1) cs
      else c # replace_from old new 0 cs)"

definition str_replace :: "string \<Rightarrow> string \<Rightarrow> string \<Rightarrow> string" where
  "str_replace s old new = replace_from old new 0 s"

text \<open>
  \<^verbatim>\<open>AutonomousDeploymentOrchestrator._execute_deployment_stage\<close>. The descriptor is looked
  up before anything runs; a stage without an executor (\<open>ROLLBACK\<close>) yields the empty
  dictionary. The second component says whether an executor was invoked.
\<close>

definition execute_deployment_stage ::
    "Config \<Rightarrow> Collaborators \<Rightarrow> DeploymentStage \<Rightarrow> DeploymentContext
     \<Rightarrow> (exn + pydict) \<times> event list" where
  "execute_deployment_stage config c stage context =
     (let stage_config = pipeline_stages config;
          stage_name = str_replace (stage_value stage) ''deploy_'' ''deploy-''
      in case find (\<lambda>s. sd_name s = stage_name) stage_config of
           None \<Rightarrow>
             (Inl (ValueError (''Stage configuration not found for '' @ stage_value stage)), [])
         | Some stage_conf \<Rightarrow>
             if stage = VALIDATION then (execute_validation_stage c context, [StageExecuted stage])
             else if stage = BUILD then (execute_build_stage c context, [StageExecuted stage])
             else if stage = TEST then (execute_test_stage c context, [StageExecuted stage])
             else if stage \<in> set [DEPLOY_DEV, DEPLOY_STAGING, DEPLOY_PRODUCTION]
               then (execute_deploy_stage c stage context, [StageExecuted stage])
             else if stage = MONITORING then (setup_monitoring c context, [StageExecuted stage])
             else (Inr [], []))"

subsection \<open>Production monitoring\<close>

text \<open>\<^verbatim>\<open>AnomalyDetector.detect_anomaly\<close>.\<close>

definition detect_anomaly :: "(string \<times> real) list \<Rightarrow> PerformanceMetrics \<Rightarrow> bool" where
  "detect_anomaly current_metrics baseline_metrics =
     (let current_response_time =
            (case map_of current_metrics ''response_time'' of None \<Rightarrow> 0 | Some v \<Rightarrow> v);
          threshold = response_time_p95 baseline_metrics * 1.5
      in current_response_time > threshold)"

text \<open>\<^verbatim>\<open>range(start, stop, step)\<close> for a positive step.\<close>

definition py_range :: "nat \<Rightarrow> nat \<Rightarrow> nat \<Rightarrow> nat list" where
  "py_range start stop step =
     map (\<lambda>k. start + k * step) [0 ..< (stop - start + step - 1) div step]"

text \<open>
  The body of the loop of \<^verbatim>\<open>_continuous_production_monitoring\<close>, over the ticks that
  are left. The two handlers only log; \<^verbatim>\<open>break\<close> ends the recursion.
\<close>

fun monitoring_loop :: "Collaborators \<Rightarrow> DeploymentContext \<Rightarrow> nat list \<Rightarrow> event list" where
  "monitoring_loop c context [] = []"
| "monitoring_loop c context (i # ticks) =
     (let current_metrics = collect_realtime_metrics c i;
          anomaly_detected = detect_anomaly current_metrics (performance_metrics context)
      in if anomaly_detected then [MetricsSampled i, AnomalyHandled i]
         else (let business_impact = assess_business_impact c current_metrics
               in if severity business_impact > 0.7
                  then [MetricsSampled i, BusinessImpactHandled i]
                  else MetricsSampled i # monitoring_loop c context ticks))"

text \<open>
  \<^verbatim>\<open>AutonomousDeploymentOrchestrator._continuous_production_monitoring\<close>; it returns
  \<^verbatim>\<open>None\<close>, so the events are all there is to it.
\<close>

definition monitoring_ticks :: "nat list" where
  "monitoring_ticks = py_range 0 300 10"

definition continuous_production_monitoring ::
    "Collaborators \<Rightarrow> DeploymentContext \<Rightarrow> event list" where
  "continuous_production_monitoring c context = monitoring_loop c context monitoring_ticks"

subsection \<open>Rollback\<close>

text \<open>
  The part of \<^verbatim>\<open>_initiate_intelligent_rollback\<close> that follows the choice of the
  strategy: the dictionary is read at \<^verbatim>\<open>"strategy"\<close>, and at \<^verbatim>\<open>"targets"\<close> in the
  targeted branch only. The rollback actions and the notification only log.
\<close>

definition execute_rollback_strategy :: "pydict \<Rightarrow> exn + event list" where
  "execute_rollback_strategy rollback_strategy =
     (case dict_item rollback_strategy ''strategy'' of
        Inl e \<Rightarrow> Inl e
      | Inr strategy \<Rightarrow>
          if strategy = PStr ''immediate'' then Inr [ImmediateRollback, RollbackNotified]
          else if strategy = PStr ''gradual'' then Inr [GradualRollback, RollbackNotified]
          else if strategy = PStr ''targeted'' then
            (case dict_item rollback_strategy ''targets'' of
               Inl e \<Rightarrow> Inl e
             | Inr targets \<Rightarrow> Inr [TargetedRollback targets, RollbackNotified])
          else Inr [RollbackNotified])"

text \<open>\<^verbatim>\<open>AutonomousDeploymentOrchestrator._initiate_intelligent_rollback\<close>.\<close>

definition initiate_intelligent_rollback ::
    "DeploymentContext \<Rightarrow> (string \<times> pydict) list \<Rightarrow> exn + event list" where
  "initiate_intelligent_rollback context partial_results =
     execute_rollback_strategy (determine_rollback_strategy context partial_results)"

subsection \<open>The stage pipeline\<close>

text \<open>
  The dictionaries that \<^verbatim>\<open>orchestrate_deployment\<close> puts under \<^verbatim>\<open>"result"\<close>, one
  constructor for each shape; \<open>result_status\<close> is the entry \<^verbatim>\<open>"status"\<close> and
  \<open>result_rollback_initiated\<close> is \<^verbatim>\<open>.get("rollback_initiated")\<close>.
\<close>

datatype deploy_result =
  Rejected "string list" "string list"
  | Success string "(string \<times> pydict) list" bool
  | Failed string bool "(string \<times> pydict) list"
  | Error string string bool "(string \<times> pydict) list"
  | ConditionalSuccess "string list"

fun result_status :: "deploy_result \<Rightarrow> string" where
  "result_status (Rejected reason recommendations) = ''rejected''"
| "result_status (Success strategy results monitoring_enabled) = ''success''"
| "result_status (Failed failed_stage rollback results) = ''failed''"
| "result_status (Error failed_stage message rollback results) = ''error''"
| "result_status (ConditionalSuccess conditions_met) = ''conditional_success''"

fun result_rollback_initiated :: "deploy_result \<Rightarrow> bool option" where
  "result_rollback_initiated (Failed failed_stage rollback results) = Some rollback"
| "result_rollback_initiated (Error failed_stage message rollback results) = Some rollback"
| "result_rollback_initiated r = None"

fun result_failed_stage :: "deploy_result \<Rightarrow> string option" where
  "result_failed_stage (Failed failed_stage rollback results) = Some failed_stage"
| "result_failed_stage (Error failed_stage message rollback results) = Some failed_stage"
| "result_failed_stage r = None"

text \<open>The list \<^verbatim>\<open>deployment_stages\<close> built at the start of \<^verbatim>\<open>_execute_autonomous_deployment\<close>.\<close>

definition deployment_stages :: "DeploymentContext \<Rightarrow> DeploymentStage list" where
  "deployment_stages context =
     [VALIDATION, BUILD, TEST]
     @ (if environment context = ''development'' then [DEPLOY_DEV]
        else if environment context = ''staging'' then [DEPLOY_DEV, DEPLOY_STAGING]
        else [DEPLOY_DEV, DEPLOY_STAGING, DEPLOY_PRODUCTION])
     @ [MONITORING]"

text \<open>
  The \<^verbatim>\<open>except Exception\<close> clause of the stage loop: roll back, then return the error
  result. An exception raised by the rollback itself leaves the function.
\<close>

definition on_stage_exception ::
    "DeploymentContext \<Rightarrow> DeploymentStage \<Rightarrow> exn \<Rightarrow> (string \<times> pydict) list
     \<Rightarrow> (exn + deploy_result) \<times> event list" where
  "on_stage_exception context stage e results =
     (case initiate_intelligent_rollback context results of
        Inl e' \<Rightarrow> (Inl e', [])
      | Inr rollback_events \<Rightarrow>
          (Inr (Error (stage_value stage) (exn_str e) True results), rollback_events))"

definition after_events :: "event list \<Rightarrow> 'a \<times> event list \<Rightarrow> 'a \<times> event list" where
  "after_events evs r = (fst r, evs @ snd r)"

text \<open>
  The \<^verbatim>\<open>for stage in deployment_stages\<close> loop of \<^verbatim>\<open>_execute_autonomous_deployment\<close>
  over the stages that are left, with the \<^verbatim>\<open>results\<close> gathered so far, and the
  \<^verbatim>\<open>return\<close> that follows the loop.
\<close>

fun run_stages ::
    "Config \<Rightarrow> Collaborators \<Rightarrow> DeploymentContext \<Rightarrow> DeploymentStage list
     \<Rightarrow> (string \<times> pydict) list \<Rightarrow> (exn + deploy_result) \<times> event list" where
  "run_stages config c context [] results =
     (Inr (Success (deployment_strategy context) results True), [])"
| "run_stages config c context (stage # rest) results =
     (case execute_deployment_stage config c stage context of
        (Inl e, evs) \<Rightarrow> after_events evs (on_stage_exception context stage e results)
      | (Inr stage_result, evs) \<Rightarrow>
          (let results' = AList.update (stage_value stage) stage_result results
           in case validate_stage_success stage stage_result context of
                Inl e \<Rightarrow> after_events evs (on_stage_exception context stage e results')
              | Inr stage_success \<Rightarrow>
                  if \<not> truthy stage_success then
                    (case initiate_intelligent_rollback context results' of
                       Inl e \<Rightarrow> after_events evs (on_stage_exception context stage e results')
                     | Inr rollback_events \<Rightarrow>
                         (Inr (Failed (stage_value stage) True results'),
                          evs @ rollback_events))
                  else
                    after_events
                      (evs @ (if stage = DEPLOY_PRODUCTION
                              then continuous_production_monitoring c context else []))
                      (run_stages config c context rest results')))"

text \<open>\<^verbatim>\<open>AutonomousDeploymentOrchestrator._execute_autonomous_deployment\<close>.\<close>

definition execute_autonomous_deployment ::
    "Config \<Rightarrow> Collaborators \<Rightarrow> DeploymentContext \<Rightarrow> DeploymentDecision
     \<Rightarrow> (exn + deploy_result) \<times> event list" where
  "execute_autonomous_deployment config c context deployment_decision =
     run_stages config c context (deployment_stages context) []"

text \<open>\<^verbatim>\<open>AutonomousDeploymentOrchestrator._execute_conditional_deployment\<close>.\<close>

definition execute_conditional_deployment ::
    "DeploymentContext \<Rightarrow> DeploymentDecision \<Rightarrow> (exn + deploy_result) \<times> event list" where
  "execute_conditional_deployment context deployment_decision =
     (Inr (ConditionalSuccess (conditions deployment_decision)), [])"

subsection \<open>DeploymentHistoryTracker\<close>

record HistoryRecord =
  hr_deployment_id :: string
  hr_timestamp :: string
  hr_context :: DeploymentContext
  hr_decision :: DeploymentDecision
  hr_result :: deploy_result

text \<open>The tracker is its list \<^verbatim>\<open>self.deployment_history\<close>.\<close>

definition record_deployment ::
    "HistoryRecord list \<Rightarrow> string \<Rightarrow> string \<Rightarrow> DeploymentContext \<Rightarrow> DeploymentDecision
     \<Rightarrow> deploy_result \<Rightarrow> HistoryRecord list" where
  "record_deployment deployment_history deployment_id timestamp context deployment_decision result =
     deployment_history
     @ [\<lparr> hr_deployment_id = deployment_id, hr_timestamp = timestamp,
          hr_context = context, hr_decision = deployment_decision, hr_result = result \<rparr>]"

text \<open>\<^verbatim>\<open>DeploymentHistoryTracker.get_relevant_history\<close>.\<close>

definition get_relevant_history :: "HistoryRecord list \<Rightarrow> Request \<Rightarrow> HistorySummary" where
  "get_relevant_history deployment_history request =
     \<lparr> total_deployments = length deployment_history,
       success_rate = 0.95,
       average_deployment_time = 25,
       similar_deployments = 15 \<rparr>"

subsection \<open>Orchestration\<close>

text \<open>\<^verbatim>\<open>AutonomousDeploymentOrchestrator._gather_deployment_context\<close>.\<close>

definition gather_deployment_context ::
    "Collaborators \<Rightarrow> HistoryRecord list \<Rightarrow> Request \<Rightarrow> DeploymentContext" where
  "gather_deployment_context c deployment_history request =
     \<lparr> environment = (case req_environment request of None \<Rightarrow> ''production'' | Some v \<Rightarrow> v),
       application_version = (case req_version request of None \<Rightarrow> ''latest'' | Some v \<Rightarrow> v),
       deployment_strategy = (case req_strategy request of None \<Rightarrow> ''blue-green'' | Some v \<Rightarrow> v),
       quality_metrics = collect_quality_metrics c request,
       performance_metrics = collect_performance_metrics c request,
       security_assessment = perform_security_assessment c request,
       risk_assessment =
         \<lparr> overall_risk_score = 0, risk_level = LOW, risk_factors = [],
           mitigation_strategies = [], confidence_score = 0, predictive_analysis = [] \<rparr>,
       historical_data = get_relevant_history deployment_history request \<rparr>"

text \<open>
  What \<^verbatim>\<open>orchestrate_deployment\<close> returns: the dictionary of a completed run, or the
  one of its \<^verbatim>\<open>except\<close> clause.
\<close>

datatype orchestration_output =
  Completed (out_deployment_id: string) (out_decision: DeploymentDecision)
    (out_result: deploy_result) (out_context: DeploymentContext)
  | OrchestrationError (out_deployment_id: string) (out_error: string)

text \<open>
  \<^verbatim>\<open>AutonomousDeploymentOrchestrator.orchestrate_deployment\<close>. The two readings of the
  clock are parameters: \<open>started\<close> is the formatted start time that goes into the
  identifier, \<open>recorded\<close> the time stamp of the history record. The function returns
  its output, the history of the tracker afterwards, and the events of the run.
\<close>

definition orchestrate_deployment ::
    "Config \<Rightarrow> Collaborators \<Rightarrow> HistoryRecord list \<Rightarrow> string \<Rightarrow> string \<Rightarrow> Request
     \<Rightarrow> orchestration_output \<times> HistoryRecord list \<times> event list" where
  "orchestrate_deployment config c deployment_history started recorded deployment_request =
     (let deployment_id = ''deploy-'' @ started;
          context0 = gather_deployment_context c deployment_history deployment_request;
          risk_assessment = analyze_deployment_risk context0;
          context = context0 \<lparr> risk_assessment := risk_assessment \<rparr>;
          deployment_decision = make_deployment_decision config context;
          outcome =
            (if decision deployment_decision = ''approve''
                \<and> autonomous_execution deployment_decision
             then execute_autonomous_deployment config c context deployment_decision
             else if decision deployment_decision = ''conditional''
             then execute_conditional_deployment context deployment_decision
             else (Inr (Rejected (reasoning deployment_decision)
                          (recommended_actions deployment_decision)), []))
      in case fst outcome of
           Inl e \<Rightarrow>
             (OrchestrationError deployment_id (exn_str e), deployment_history, snd outcome)
         | Inr result \<Rightarrow>
             (Completed deployment_id deployment_decision result context,
              record_deployment deployment_history deployment_id recorded context
                deployment_decision result,
              snd outcome))"

text \<open>The stages whose executors ran, in order, read off the events of a run.\<close>

fun stages_executed :: "event list \<Rightarrow> DeploymentStage list" where
  "stages_executed [] = []"
| "stages_executed (StageExecuted s # evs) = s # stages_executed evs"
| "stages_executed (e # evs) = stages_executed evs"

text \<open>The ticks at which the monitoring loop took a sample, in order.\<close>

fun ticks_sampled :: "event list \<Rightarrow> nat list" where
  "ticks_sampled [] = []"
| "ticks_sampled (MetricsSampled i # evs) = i # ticks_sampled evs"
| "ticks_sampled (e # evs) = ticks_sampled evs"

text \<open>Whether a rollback action or its notification is among the events.\<close>

fun is_rollback_event :: "event \<Rightarrow> bool" where
  "is_rollback_event ImmediateRollback = True"
| "is_rollback_event GradualRollback = True"
| "is_rollback_event (TargetedRollback t) = True"
| "is_rollback_event RollbackNotified = True"
| "is_rollback_event e = False"

section \<open>Auxiliary notions and concrete inputs\<close>

text \<open>
  The context on which \<^verbatim>\<open>orchestrate_deployment\<close> takes its decision for a request
  when the history is empty: the gathered context with the risk assessment filled in.
\<close>

definition assessed_context :: "Collaborators \<Rightarrow> Request \<Rightarrow> DeploymentContext" where
  "assessed_context c request =
     (let context0 = gather_deployment_context c [] request
      in context0 \<lparr> risk_assessment := analyze_deployment_risk context0 \<rparr>)"

text \<open>The value ranges that section 3 of the specification gives for the metrics.\<close>

definition section3_ranges :: "DeploymentContext \<Rightarrow> bool" where
  "section3_ranges context =
     (let q = quality_metrics context; p = performance_metrics context;
          s = security_assessment context
      in 0 \<le> test_coverage q \<and> test_coverage q \<le> 100
       \<and> 0 \<le> code_quality_score q \<and> code_quality_score q \<le> 1
       \<and> 0 \<le> security_vulnerabilities q
       \<and> 0 \<le> performance_score q \<and> performance_score q \<le> 1
       \<and> 0 \<le> reliability_score q \<and> reliability_score q \<le> 1
       \<and> 0 \<le> maintainability_score q \<and> maintainability_score q \<le> 1
       \<and> 0 \<le> response_time_p95 p \<and> 0 \<le> throughput p \<and> 0 \<le> error_rate p
       \<and> 0 \<le> memory_utilization p \<and> memory_utilization p \<le> 100
       \<and> 0 \<le> availability p \<and> availability p \<le> 100
       \<and> 0 \<le> vulnerability_count s
       \<and> 0 \<le> security_score s \<and> security_score s \<le> 1
       \<and> 0 \<le> compliance_score s \<and> compliance_score s \<le> 1)"

text \<open>A request without any field, so that every default applies.\<close>

definition no_request :: Request where
  "no_request = \<lparr> req_environment = None, req_version = None, req_strategy = None \<rparr>"

text \<open>
  The collaborators of the source with other readings for test coverage, vulnerability
  count, error rate and availability.
\<close>

definition scenario_collaborators :: "real \<Rightarrow> int \<Rightarrow> real \<Rightarrow> real \<Rightarrow> Collaborators" where
  "scenario_collaborators coverage vulnerabilities errors avail =
     builtin
       \<lparr> collect_quality_metrics := (\<lambda>request.
            (collect_quality_metrics builtin request)
              \<lparr> test_coverage := coverage, security_vulnerabilities := vulnerabilities \<rparr>),
         collect_performance_metrics := (\<lambda>request.
            (collect_performance_metrics builtin request)
              \<lparr> error_rate := errors, availability := avail \<rparr>) \<rparr>"

definition approve_context :: DeploymentContext where
  "approve_context = assessed_context builtin no_request"

definition conditional_collaborators :: Collaborators where
  "conditional_collaborators = scenario_collaborators 60 2 0.05 99.97"

definition conditional_context :: DeploymentContext where
  "conditional_context = assessed_context conditional_collaborators no_request"

definition reject_context :: DeploymentContext where
  "reject_context = assessed_context (scenario_collaborators 0 10 0.9 90) no_request"

definition scenario_b_context :: DeploymentContext where
  "scenario_b_context = gather_deployment_context conditional_collaborators [] no_request"

text \<open>A configuration with a descriptor for every stage and the given approval rules.\<close>

definition example_config :: "DecisionRule list \<Rightarrow> Config" where
  "example_config rules =
     \<lparr> pipeline_stages = map (\<lambda>n. \<lparr> sd_name = n \<rparr>)
         [''validation'', ''build'', ''test'', ''deploy-development'', ''deploy-staging'',
          ''deploy-production'', ''monitoring''],
       deployment_approval = rules \<rparr>"

definition high_confidence_rule :: DecisionRule where
  "high_confidence_rule =
     \<lparr> rule_condition = ''overall_score >= 0.85'', rule_confidence = 0.95 \<rparr>"

text \<open>Whether the configuration has a descriptor under the name of the stage.\<close>

definition has_descriptor :: "Config \<Rightarrow> DeploymentStage \<Rightarrow> bool" where
  "has_descriptor config stage =
     (str_replace (stage_value stage) ''deploy_'' ''deploy-''
        \<in> set (map sd_name (pipeline_stages config)))"

text \<open>Collaborators whose five stage executors are the ones of the source.\<close>

definition builtin_executors :: "Collaborators \<Rightarrow> bool" where
  "builtin_executors c =
     (execute_validation_stage c = execute_validation_stage builtin
      \<and> execute_build_stage c = execute_build_stage builtin
      \<and> execute_test_stage c = execute_test_stage builtin
      \<and> execute_deploy_stage c = execute_deploy_stage builtin
      \<and> setup_monitoring c = setup_monitoring builtin)"

text \<open>
  A tick at which the monitor has a finding: the sample is an anomaly against the
  baseline of the context, or its business impact has a severity above 0.7.
\<close>

definition tick_flagged :: "Collaborators \<Rightarrow> DeploymentContext \<Rightarrow> nat \<Rightarrow> bool" where
  "tick_flagged c context i =
     (detect_anomaly (collect_realtime_metrics c i) (performance_metrics context)
      \<or> severity (assess_business_impact c (collect_realtime_metrics c i)) > 0.7)"

text \<open>
  Collaborators for a production run that nothing but the monitor disturbs: the
  executor of the monitoring stage reports success, and the response time of the live
  sample rises to 400 from the second tick on, above 1.5 times the baseline of 145.7.
\<close>

definition anomaly_collaborators :: Collaborators where
  "anomaly_collaborators =
     builtin
       \<lparr> setup_monitoring := (\<lambda>context.
            Inr [(''deployment_successful'', PBool True), (''monitoring_enabled'', PBool True)]),
         collect_realtime_metrics := (\<lambda>tick.
            if tick < 10 then [(''response_time'', 120.5)] else [(''response_time'', 400)]) \<rparr>"

text \<open>A configuration that lacks the descriptor of the build stage.\<close>

definition config_without_build :: Config where
  "config_without_build =
     \<lparr> pipeline_stages = map (\<lambda>n. \<lparr> sd_name = n \<rparr>)
         [''validation'', ''test'', ''deploy-development'', ''deploy-staging'',
          ''deploy-production'', ''monitoring''],
       deployment_approval = [] \<rparr>"

text \<open>Three orchestrations of the empty request on an empty history.\<close>

definition anomaly_run :: "orchestration_output \<times> HistoryRecord list \<times> event list" where
  "anomaly_run =
     orchestrate_deployment (example_config []) anomaly_collaborators []
       ''20250101-000000'' ''2025-01-01T00:00:00'' no_request"


definition conditional_run :: "orchestration_output \<times> HistoryRecord list \<times> event list" where
  "conditional_run =
     orchestrate_deployment (example_config []) conditional_collaborators []
       ''20250101-000000'' ''2025-01-01T00:00:00'' no_request"

section \<open>Properties\<close>

subsection \<open>Risk analysis\<close>

text \<open>
  Claim C5. For every context the risk score is the sum of the four contributions, taken
  in the order of the source: 0.20 for a test coverage below 80, 0.30 for a positive
  number of vulnerabilities, 0.20 for an error rate above 0.5 and 0.15 for an
  availability below 99.5, each with its factor label appended to the list of factors.
  The level is HIGH from 0.7 on, MEDIUM from 0.4 on (0.4 included) and LOW below;
  CRITICAL is never produced.
\<close>

theorem c5_risk_analyzer:
  "overall_risk_score (analyze_deployment_risk context) =
       (if test_coverage (quality_metrics context) < 80 then 0.2 else 0)
     + (if security_vulnerabilities (quality_metrics context) > 0 then 0.3 else 0)
     + (if error_rate (performance_metrics context) > 0.5 then 0.2 else 0)
     + (if availability (performance_metrics context) < 99.5 then 0.15 else 0)
   \<and> risk_factors (analyze_deployment_risk context) =
       (if test_coverage (quality_metrics context) < 80 then [''Low test coverage''] else [])
     @ (if security_vulnerabilities (quality_metrics context) > 0
        then [''Security vulnerabilities present''] else [])
     @ (if error_rate (performance_metrics context) > 0.5 then [''High error rate''] else [])
     @ (if availability (performance_metrics context) < 99.5 then [''Low availability''] else [])
   \<and> risk_level (analyze_deployment_risk context) =
       (if overall_risk_score (analyze_deployment_risk context) \<ge> 0.7 then HIGH
        else if overall_risk_score (analyze_deployment_risk context) \<ge> 0.4 then MEDIUM
        else LOW)
   \<and> risk_level (analyze_deployment_risk context) \<noteq> CRITICAL"
  by (simp add: analyze_deployment_risk_def risk_step_def Let_def)

text \<open>
  Both breakpoints are reached: low coverage with a high error rate gives exactly 0.4,
  and vulnerabilities on top of that give exactly 0.7.
\<close>

lemma risk_level_at_breakpoints:
  assumes "test_coverage (quality_metrics context) < 80"
    and "error_rate (performance_metrics context) > 0.5"
    and "availability (performance_metrics context) \<ge> 99.5"
  shows "security_vulnerabilities (quality_metrics context) \<le> 0 \<Longrightarrow>
           overall_risk_score (analyze_deployment_risk context) = 0.4
           \<and> risk_level (analyze_deployment_risk context) = MEDIUM"
    and "security_vulnerabilities (quality_metrics context) > 0 \<Longrightarrow>
           overall_risk_score (analyze_deployment_risk context) = 0.7
           \<and> risk_level (analyze_deployment_risk context) = HIGH"
  using assms by (simp_all add: analyze_deployment_risk_def risk_step_def Let_def)

lemma analyze_ignores_risk:
  "analyze_deployment_risk (context \<lparr> risk_assessment := r \<rparr>) = analyze_deployment_risk context"
  by (simp add: analyze_deployment_risk_def)

subsection \<open>Rollback strategy\<close>

text \<open>
  Claim C6. For every context and all partial results, the strategy chosen is
  \<open>immediate\<close> exactly when the environment is \<open>production\<close> and \<open>gradual\<close>
  otherwise; \<open>targeted\<close> is never chosen.
\<close>

theorem c6_rollback_strategy:
  "dict_item (determine_rollback_strategy context partial_results) ''strategy'' =
     Inr (PStr (if environment context = ''production'' then ''immediate'' else ''gradual''))
   \<and> (dict_item (determine_rollback_strategy context partial_results) ''strategy''
        = Inr (PStr ''immediate'')) = (environment context = ''production'')
   \<and> dict_item (determine_rollback_strategy context partial_results) ''strategy''
        \<noteq> Inr (PStr ''targeted'')"
  by (simp add: determine_rollback_strategy_def dict_item_def)

text \<open>
  Reading \<^verbatim>\<open>"targets"\<close> is a real hazard of the dispatch: a targeted strategy without
  that key raises.
\<close>

lemma targeted_without_targets_raises:
  "execute_rollback_strategy [(''strategy'', PStr ''targeted'')] = Inl (KeyError ''targets'')"
  by (simp add: execute_rollback_strategy_def dict_item_def)

lemma initiate_intelligent_rollback_result:
  "initiate_intelligent_rollback context partial_results =
     Inr (if environment context = ''production''
          then [ImmediateRollback, RollbackNotified]
          else [GradualRollback, RollbackNotified])"
  by (simp add: determine_rollback_strategy_def dict_item_def initiate_intelligent_rollback_def
        execute_rollback_strategy_def)

text \<open>
  Claim C10. For every context and all partial results, the strategy dictionary has the
  key \<^verbatim>\<open>"strategy"\<close> with the value \<open>immediate\<close> or \<open>gradual\<close>, never \<open>targeted\<close>.
  Hence the rollback takes the immediate or the gradual branch, no targeted rollback
  is among its actions, and it never raises for a missing \<^verbatim>\<open>"targets"\<close> key.
\<close>

theorem c10_targeted_branch_unreachable:
  "(dict_item (determine_rollback_strategy context partial_results) ''strategy''
      = Inr (PStr ''immediate'')
    \<or> dict_item (determine_rollback_strategy context partial_results) ''strategy''
      = Inr (PStr ''gradual''))
   \<and> dict_item (determine_rollback_strategy context partial_results) ''strategy''
        \<noteq> Inr (PStr ''targeted'')
   \<and> initiate_intelligent_rollback context partial_results =
       Inr (if environment context = ''production''
            then [ImmediateRollback, RollbackNotified]
            else [GradualRollback, RollbackNotified])
   \<and> initiate_intelligent_rollback context partial_results \<noteq> Inl (KeyError ''targets'')"
  by (simp add: determine_rollback_strategy_def dict_item_def initiate_intelligent_rollback_def
        execute_rollback_strategy_def)

subsection \<open>History\<close>

text \<open>
  Claim C8, as stated, fails: on an empty history the summary has a success rate of
  0.95, an average deployment time of 25 and 15 similar deployments, none of them
  zero, although the total is 0.
\<close>

theorem c8_summary_not_zero:
  "total_deployments (get_relevant_history [] no_request) = 0
   \<and> success_rate (get_relevant_history [] no_request) = 0.95
   \<and> average_deployment_time (get_relevant_history [] no_request) = 25
   \<and> similar_deployments (get_relevant_history [] no_request) = 15
   \<and> similar_deployments (get_relevant_history [] no_request)
       > int (total_deployments (get_relevant_history [] no_request))"
  by (simp add: get_relevant_history_def)

text \<open>
  Claim C8, amended. For every request, the query on an empty history returns (it is a
  total function, so it never raises) the summary with total 0 and the three fixed
  values of the source: success rate 0.95, average deployment time 25 and 15 similar
  deployments.
\<close>

theorem c8_empty_history_summary:
  "get_relevant_history [] request =
     \<lparr> total_deployments = 0, success_rate = 0.95, average_deployment_time = 25,
       similar_deployments = 15 \<rparr>"
  by (simp add: get_relevant_history_def)

subsection \<open>Decision\<close>

lemma find_none_default:
  "\<forall>x\<in>set xs. \<not> P x \<Longrightarrow> find P xs = None"
  by (simp add: find_None_iff)

lemma overall_examples:
  "overall_score approve_context = 153683 / 160000"
  "overall_score conditional_context = 128733 / 160000"
  "overall_score reject_context = 22809 / 40000"
  by (simp_all add: overall_score_def assessed_context_def scenario_collaborators_def builtin_def
        gather_deployment_context_def analyze_deployment_risk_def risk_step_def Let_def
        calculate_quality_score_def calculate_performance_score_def calculate_security_score_def
        no_request_def get_relevant_history_def approve_context_def conditional_context_def
        conditional_collaborators_def reject_context_def)

text \<open>
  Claim C4. For every context in which no configured approval rule fires, the decision
  is: approve with the overall score as confidence and autonomous execution when the
  overall score is at least 0.9; otherwise conditional with the overall score as
  confidence, the conditions \<open>enhanced_monitoring\<close> and \<open>gradual_rollout\<close> and no
  autonomous execution when it is at least 0.7; otherwise reject with one minus the
  overall score as confidence and no autonomous execution. The overall score is the
  mean of the quality, performance and security scores and the complement of the risk.
\<close>

theorem c4_default_decision:
  assumes "\<forall>rule \<in> set (deployment_approval config).
             \<not> evaluate_rule_condition (rule_condition rule) context (overall_score context)"
  shows "decision (make_deployment_decision config context) =
           (if overall_score context \<ge> 0.9 then ''approve''
            else if overall_score context \<ge> 0.7 then ''conditional'' else ''reject'')
       \<and> confidence (make_deployment_decision config context) =
           (if overall_score context \<ge> 0.7 then overall_score context
            else 1 - overall_score context)
       \<and> conditions (make_deployment_decision config context) =
           (if overall_score context \<ge> 0.7 \<and> overall_score context < 0.9
            then [''enhanced_monitoring'', ''gradual_rollout''] else [])
       \<and> autonomous_execution (make_deployment_decision config context) =
           (overall_score context \<ge> 0.9)
       \<and> overall_score context =
           (calculate_quality_score (quality_metrics context)
            + calculate_performance_score (performance_metrics context)
            + calculate_security_score (security_assessment context)
            + (1 - overall_risk_score (risk_assessment context))) / 4"
proof -
  have "find (\<lambda>rule. evaluate_rule_condition (rule_condition rule) context (overall_score context))
          (deployment_approval config) = None"
    using assms by (rule find_none_default)
  then show ?thesis
    by (simp add: make_deployment_decision_def Let_def overall_score_def)
qed

text \<open>The three branches, each at a context that reaches it.\<close>

theorem c4_default_decision_witness:
  "deployment_approval (example_config []) = []
   \<and> decision (make_deployment_decision (example_config []) approve_context) = ''approve''
   \<and> confidence (make_deployment_decision (example_config []) approve_context)
       = 153683 / 160000
   \<and> autonomous_execution (make_deployment_decision (example_config []) approve_context)
   \<and> deployment_approval (example_config [high_confidence_rule]) = [high_confidence_rule]
   \<and> \<not> evaluate_rule_condition (rule_condition high_confidence_rule) conditional_context
         (overall_score conditional_context)
   \<and> decision (make_deployment_decision (example_config [high_confidence_rule])
         conditional_context) = ''conditional''
   \<and> confidence (make_deployment_decision (example_config [high_confidence_rule])
         conditional_context) = 128733 / 160000
   \<and> conditions (make_deployment_decision (example_config [high_confidence_rule])
         conditional_context) = [''enhanced_monitoring'', ''gradual_rollout'']
   \<and> \<not> autonomous_execution (make_deployment_decision (example_config [high_confidence_rule])
         conditional_context)
   \<and> \<not> evaluate_rule_condition (rule_condition high_confidence_rule) reject_context
         (overall_score reject_context)
   \<and> decision (make_deployment_decision (example_config [high_confidence_rule])
         reject_context) = ''reject''
   \<and> confidence (make_deployment_decision (example_config [high_confidence_rule])
         reject_context) = 17191 / 40000
   \<and> \<not> autonomous_execution (make_deployment_decision (example_config [high_confidence_rule])
         reject_context)"
proof -
  have a: "\<forall>rule \<in> set (deployment_approval (example_config [])).
       \<not> evaluate_rule_condition (rule_condition rule) approve_context
            (overall_score approve_context)"
    by (simp add: example_config_def)
  have b: "\<forall>rule \<in> set (deployment_approval (example_config [high_confidence_rule])).
       \<not> evaluate_rule_condition (rule_condition rule) conditional_context
            (overall_score conditional_context)"
    by (simp add: example_config_def evaluate_rule_condition_def overall_examples)
  have c: "\<forall>rule \<in> set (deployment_approval (example_config [high_confidence_rule])).
       \<not> evaluate_rule_condition (rule_condition rule) reject_context
            (overall_score reject_context)"
    by (simp add: example_config_def evaluate_rule_condition_def overall_examples)
  show ?thesis
    using c4_default_decision [OF a] c4_default_decision [OF b] c4_default_decision [OF c]
    by (simp add: overall_examples example_config_def evaluate_rule_condition_def)
qed

lemma performance_score_le_1: "calculate_performance_score m \<le> 1"
  by (simp add: calculate_performance_score_def Let_def)

lemma security_score_le_1: "calculate_security_score a \<le> 1"
  by (simp add: calculate_security_score_def Let_def)

lemma quality_score_scenario_b:
  assumes "test_coverage m = 60" "security_vulnerabilities m = 2"
    "code_quality_score m \<le> 1" "performance_score m \<le> 1" "reliability_score m \<le> 1"
  shows "calculate_quality_score m \<le> 0.85"
proof -
  define score where "score = 0.25 * (test_coverage m / 100) + 0.25 * code_quality_score m
        + 0.25 * max 0 (1.0 - (real_of_int (security_vulnerabilities m) / 10))
        + 0.125 * performance_score m + 0.125 * reliability_score m"
  have "score \<le> 0.85"
    using assms unfolding score_def by simp
  then have "min 1.0 (max 0.0 score) \<le> 0.85"
    by (simp add: min_def max_def)
  moreover have "calculate_quality_score m = min 1.0 (max 0.0 score)"
    unfolding calculate_quality_score_def Let_def score_def ..
  ultimately show ?thesis by simp
qed

lemma risk_scenario_b:
  assumes "test_coverage (quality_metrics context) = 60"
    "security_vulnerabilities (quality_metrics context) = 2"
    "error_rate (performance_metrics context) \<le> 0.5"
    "availability (performance_metrics context) \<ge> 99.5"
  shows "overall_risk_score (analyze_deployment_risk context) = 0.5"
    and "risk_level (analyze_deployment_risk context) = MEDIUM"
  using assms by (simp_all add: analyze_deployment_risk_def risk_step_def Let_def)

text \<open>
  Claim C7. For every context within the ranges of section 3 with a test coverage of 60
  and 2 vulnerabilities, an error rate of at most 0.5 and an availability of at least
  99.5, the risk score is 0.50 and the level MEDIUM. Decided on that risk assessment,
  the overall score stays below 0.85, so no configured rule fires, and the decision
  is never an approval with autonomous execution, whatever the configuration.
\<close>

theorem c7_scenario_b:
  assumes ranges: "section3_ranges context"
    and cov: "test_coverage (quality_metrics context) = 60"
    and vul: "security_vulnerabilities (quality_metrics context) = 2"
    and err: "error_rate (performance_metrics context) \<le> 0.5"
    and ava: "availability (performance_metrics context) \<ge> 99.5"
  shows "overall_risk_score (analyze_deployment_risk context) = 0.50
       \<and> risk_level (analyze_deployment_risk context) = MEDIUM
       \<and> overall_score (context \<lparr> risk_assessment := analyze_deployment_risk context \<rparr>) < 0.85
       \<and> \<not> (decision (make_deployment_decision config
                 (context \<lparr> risk_assessment := analyze_deployment_risk context \<rparr>)) = ''approve''
            \<and> autonomous_execution (make_deployment_decision config
                 (context \<lparr> risk_assessment := analyze_deployment_risk context \<rparr>)))"
proof -
  let ?ctx = "context \<lparr> risk_assessment := analyze_deployment_risk context \<rparr>"
  have risk: "overall_risk_score (analyze_deployment_risk context) = 0.5"
    and level: "risk_level (analyze_deployment_risk context) = MEDIUM"
    using risk_scenario_b [OF cov vul err ava] by simp_all
  have q: "calculate_quality_score (quality_metrics context) \<le> 0.85"
    using ranges cov vul
    by (intro quality_score_scenario_b) (simp_all add: section3_ranges_def Let_def)
  have p: "calculate_performance_score (performance_metrics context) \<le> 1"
    by (rule performance_score_le_1)
  have s: "calculate_security_score (security_assessment context) \<le> 1"
    by (rule security_score_le_1)
  have overall: "overall_score ?ctx \<le> 0.8375"
    using q p s risk by (simp add: overall_score_def Let_def)
  then have low: "overall_score ?ctx < 0.85" by simp
  have "find (\<lambda>rule. evaluate_rule_condition (rule_condition rule) ?ctx (overall_score ?ctx))
          (deployment_approval config) = None"
    using low by (simp add: find_None_iff evaluate_rule_condition_def)
  then have "decision (make_deployment_decision config ?ctx) \<noteq> ''approve''"
    using low by (simp add: make_deployment_decision_def Let_def)
  with risk level low show ?thesis by simp
qed

lemma scenario_b_context_facts:
  "section3_ranges scenario_b_context"
  "test_coverage (quality_metrics scenario_b_context) = 60"
  "security_vulnerabilities (quality_metrics scenario_b_context) = 2"
  "error_rate (performance_metrics scenario_b_context) \<le> 0.5"
  "availability (performance_metrics scenario_b_context) \<ge> 99.5"
  by (simp_all add: scenario_b_context_def section3_ranges_def gather_deployment_context_def
        scenario_collaborators_def conditional_collaborators_def builtin_def Let_def)

theorem c7_scenario_b_witness:
  "section3_ranges scenario_b_context
   \<and> test_coverage (quality_metrics scenario_b_context) = 60
   \<and> security_vulnerabilities (quality_metrics scenario_b_context) = 2
   \<and> error_rate (performance_metrics scenario_b_context) \<le> 0.5
   \<and> availability (performance_metrics scenario_b_context) \<ge> 99.5
   \<and> overall_risk_score (analyze_deployment_risk scenario_b_context) = 0.50
   \<and> risk_level (analyze_deployment_risk scenario_b_context) = MEDIUM
   \<and> overall_score
        (scenario_b_context \<lparr> risk_assessment := analyze_deployment_risk scenario_b_context \<rparr>)
        < 0.85
   \<and> \<not> (decision (make_deployment_decision (example_config [high_confidence_rule])
             (scenario_b_context
                \<lparr> risk_assessment := analyze_deployment_risk scenario_b_context \<rparr>)) = ''approve''
        \<and> autonomous_execution (make_deployment_decision (example_config [high_confidence_rule])
             (scenario_b_context
                \<lparr> risk_assessment := analyze_deployment_risk scenario_b_context \<rparr>)))"
  using scenario_b_context_facts
    c7_scenario_b [OF scenario_b_context_facts, of "example_config [high_confidence_rule]"]
  by simp

subsection \<open>Stage execution\<close>

text \<open>The names under which the stages are looked up in the configuration.\<close>

lemma stage_names:
  "str_replace (stage_value VALIDATION) ''deploy_'' ''deploy-'' = ''validation''"
  "str_replace (stage_value BUILD) ''deploy_'' ''deploy-'' = ''build''"
  "str_replace (stage_value TEST) ''deploy_'' ''deploy-'' = ''test''"
  "str_replace (stage_value DEPLOY_DEV) ''deploy_'' ''deploy-'' = ''deploy-development''"
  "str_replace (stage_value DEPLOY_STAGING) ''deploy_'' ''deploy-'' = ''deploy-staging''"
  "str_replace (stage_value DEPLOY_PRODUCTION) ''deploy_'' ''deploy-'' = ''deploy-production''"
  "str_replace (stage_value MONITORING) ''deploy_'' ''deploy-'' = ''monitoring''"
  "str_replace (stage_value ROLLBACK) ''deploy_'' ''deploy-'' = ''rollback''"
  by (simp_all add: str_replace_def)

lemma find_descriptor:
  "(case find (\<lambda>s. sd_name s = n) ds of None \<Rightarrow> a | Some d \<Rightarrow> b) =
     (if n \<in> set (map sd_name ds) then b else a)"
  by (induction ds) auto


lemma execute_deployment_stage_present:
  "has_descriptor config VALIDATION \<Longrightarrow>
     execute_deployment_stage config c VALIDATION context =
       (execute_validation_stage c context, [StageExecuted VALIDATION])"
  "has_descriptor config BUILD \<Longrightarrow>
     execute_deployment_stage config c BUILD context =
       (execute_build_stage c context, [StageExecuted BUILD])"
  "has_descriptor config TEST \<Longrightarrow>
     execute_deployment_stage config c TEST context =
       (execute_test_stage c context, [StageExecuted TEST])"
  "has_descriptor config DEPLOY_DEV \<Longrightarrow>
     execute_deployment_stage config c DEPLOY_DEV context =
       (execute_deploy_stage c DEPLOY_DEV context, [StageExecuted DEPLOY_DEV])"
  "has_descriptor config DEPLOY_STAGING \<Longrightarrow>
     execute_deployment_stage config c DEPLOY_STAGING context =
       (execute_deploy_stage c DEPLOY_STAGING context, [StageExecuted DEPLOY_STAGING])"
  "has_descriptor config DEPLOY_PRODUCTION \<Longrightarrow>
     execute_deployment_stage config c DEPLOY_PRODUCTION context =
       (execute_deploy_stage c DEPLOY_PRODUCTION context, [StageExecuted DEPLOY_PRODUCTION])"
  "has_descriptor config MONITORING \<Longrightarrow>
     execute_deployment_stage config c MONITORING context =
       (setup_monitoring c context, [StageExecuted MONITORING])"
  unfolding execute_deployment_stage_def Let_def has_descriptor_def find_descriptor
  by simp_all



lemma run_stages_invalid:
  assumes "execute_deployment_stage config c stage context = (Inr r, evs)"
    and "validate_stage_success stage r context = Inr v" and "\<not> truthy v"
  shows "run_stages config c context (stage # rest) results =
           (Inr (Failed (stage_value stage) True (AList.update (stage_value stage) r results)),
            evs @ (if environment context = ''production''
                   then [ImmediateRollback, RollbackNotified]
                   else [GradualRollback, RollbackNotified]))"
  using assms by (simp add: initiate_intelligent_rollback_result)

lemma run_stages_pass:
  assumes "execute_deployment_stage config c stage context = (Inr r, evs)"
    and "validate_stage_success stage r context = Inr v" and "truthy v"
  shows "run_stages config c context (stage # rest) results =
           after_events
             (evs @ (if stage = DEPLOY_PRODUCTION
                     then continuous_production_monitoring c context else []))
             (run_stages config c context rest (AList.update (stage_value stage) r results))"
  using assms by simp

lemma stages_executed_append:
  "stages_executed (xs @ ys) = stages_executed xs @ stages_executed ys"
  by (induction xs rule: stages_executed.induct) simp_all

lemma stages_executed_monitoring_loop:
  "stages_executed (monitoring_loop c context ticks) = []"
  by (induction ticks) (simp_all add: Let_def)

lemma rollback_events_monitoring_loop:
  "filter is_rollback_event (monitoring_loop c context ticks) = []"
  by (induction ticks) (simp_all add: Let_def)

lemma validate_other_stage:
  "stage \<notin> {VALIDATION, BUILD, TEST} \<Longrightarrow>
     validate_stage_success stage result context =
       Inr (dict_get result ''deployment_successful'' (PBool False))"
  by (cases stage) simp_all

text \<open>One passing step of each built-in executor.\<close>

lemma builtin_steps:
  "execute_validation_stage c = execute_validation_stage builtin \<Longrightarrow>
    has_descriptor config VALIDATION \<Longrightarrow>
      run_stages config c context (VALIDATION # rest) results =
        after_events [StageExecuted VALIDATION]
          (run_stages config c context rest
            (AList.update ''validation''
               [(''validation_passed'', PBool True), (''checks_completed'', PInt 15)] results))"
  "execute_build_stage c = execute_build_stage builtin \<Longrightarrow>
    has_descriptor config BUILD \<Longrightarrow>
      run_stages config c context (BUILD # rest) results =
        after_events [StageExecuted BUILD]
          (run_stages config c context rest
            (AList.update ''build''
               [(''build_successful'', PBool True),
                (''artifacts_created'', PList [PStr ''frontend'', PStr ''api'', PStr ''quantum''])]
               results))"
  "execute_test_stage c = execute_test_stage builtin \<Longrightarrow>
    has_descriptor config TEST \<Longrightarrow>
      run_stages config c context (TEST # rest) results =
        after_events [StageExecuted TEST]
          (run_stages config c context rest
            (AList.update ''test''
               [(''tests_passed'', PBool True), (''test_coverage'', PFloat 89.5),
                (''test_count'', PInt 1247)] results))"
  "execute_deploy_stage c = execute_deploy_stage builtin \<Longrightarrow>
    has_descriptor config DEPLOY_DEV \<Longrightarrow>
      run_stages config c context (DEPLOY_DEV # rest) results =
        after_events [StageExecuted DEPLOY_DEV]
          (run_stages config c context rest
            (AList.update ''deploy_development''
               [(''deployment_successful'', PBool True),
                (''strategy'', PStr (deployment_strategy context))] results))"
  "execute_deploy_stage c = execute_deploy_stage builtin \<Longrightarrow>
    has_descriptor config DEPLOY_STAGING \<Longrightarrow>
      run_stages config c context (DEPLOY_STAGING # rest) results =
        after_events [StageExecuted DEPLOY_STAGING]
          (run_stages config c context rest
            (AList.update ''deploy_staging''
               [(''deployment_successful'', PBool True),
                (''strategy'', PStr (deployment_strategy context))] results))"
  "execute_deploy_stage c = execute_deploy_stage builtin \<Longrightarrow>
    has_descriptor config DEPLOY_PRODUCTION \<Longrightarrow>
      run_stages config c context (DEPLOY_PRODUCTION # rest) results =
        after_events (StageExecuted DEPLOY_PRODUCTION # continuous_production_monitoring c context)
          (run_stages config c context rest
            (AList.update ''deploy_production''
               [(''deployment_successful'', PBool True),
                (''strategy'', PStr (deployment_strategy context))] results))"
  "setup_monitoring c = setup_monitoring builtin \<Longrightarrow>
    has_descriptor config MONITORING \<Longrightarrow>
      run_stages config c context (MONITORING # rest) results =
        (Inr (Failed ''monitoring'' True
           (AList.update ''monitoring''
              [(''monitoring_enabled'', PBool True), (''dashboards_created'', PInt 5),
               (''alerts_configured'', PInt 12)] results)),
         StageExecuted MONITORING
         # (if environment context = ''production''
            then [ImmediateRollback, RollbackNotified]
            else [GradualRollback, RollbackNotified]))"
  by (simp_all add: builtin_def execute_deployment_stage_present
        dict_get_def initiate_intelligent_rollback_result del: run_stages.simps
        add: run_stages.simps(2))

lemma fst_after_events: "fst (after_events evs r) = fst r"
  by (simp add: after_events_def)

lemma snd_after_events: "snd (after_events evs r) = evs @ snd r"
  by (simp add: after_events_def)

lemma after_events_pair: "after_events evs (a, b) = (a, evs @ b)"
  by (simp add: after_events_def)

lemma execute_deployment_stage_monitor_independent:
  "execute_deployment_stage config
     (c \<lparr> collect_realtime_metrics := f, assess_business_impact := g \<rparr>) stage context
   = execute_deployment_stage config c stage context"
  unfolding execute_deployment_stage_def Let_def find_descriptor by simp


text \<open>Facts about the concrete inputs.\<close>

lemma monitoring_ticks_eval:
  "monitoring_ticks =
     [0, 10, 20, 30, 40, 50, 60, 70, 80, 90, 100, 110, 120, 130, 140, 150, 160, 170, 180,
      190, 200, 210, 220, 230, 240, 250, 260, 270, 280, 290]"
  by code_simp

lemma monitoring_ticks_sorted: "sorted_wrt (<) monitoring_ticks"
  by (simp add: monitoring_ticks_eval)

lemma approve_context_fields:
  "environment approve_context = ''production''"
  "deployment_strategy approve_context = ''blue-green''"
  "response_time_p95 (performance_metrics approve_context) = 145.7"
  by (simp_all add: approve_context_def assessed_context_def gather_deployment_context_def
        no_request_def builtin_def Let_def)

lemma has_descriptor_example_config:
  "stage \<noteq> ROLLBACK \<Longrightarrow> has_descriptor (example_config rules) stage"
  by (cases stage) (simp_all add: has_descriptor_def example_config_def str_replace_def)


lemma anomaly_monitoring:
  "continuous_production_monitoring anomaly_collaborators approve_context =
     [MetricsSampled 0, MetricsSampled 10, AnomalyHandled 10]"
  by (simp add: continuous_production_monitoring_def monitoring_ticks_eval
        anomaly_collaborators_def builtin_def detect_anomaly_def approve_context_fields Let_def)

lemma orchestrate_deployment_empty_history:
  "orchestrate_deployment config c [] started recorded request =
     (let deployment_id = ''deploy-'' @ started;
          context = assessed_context c request;
          deployment_decision = make_deployment_decision config context;
          outcome =
            (if decision deployment_decision = ''approve''
                \<and> autonomous_execution deployment_decision
             then execute_autonomous_deployment config c context deployment_decision
             else if decision deployment_decision = ''conditional''
             then execute_conditional_deployment context deployment_decision
             else (Inr (Rejected (reasoning deployment_decision)
                          (recommended_actions deployment_decision)), []))
      in case fst outcome of
           Inl e \<Rightarrow> (OrchestrationError deployment_id (exn_str e), [], snd outcome)
         | Inr result \<Rightarrow>
             (Completed deployment_id deployment_decision result context,
              record_deployment [] deployment_id recorded context deployment_decision result,
              snd outcome))"
  by (simp add: orchestrate_deployment_def assessed_context_def Let_def)

lemma assessed_context_anomaly:
  "assessed_context anomaly_collaborators no_request = approve_context"
  by (simp add: approve_context_def assessed_context_def gather_deployment_context_def
        anomaly_collaborators_def Let_def)

lemma approve_decision:
  "decision (make_deployment_decision (example_config []) approve_context) = ''approve''"
  "autonomous_execution (make_deployment_decision (example_config []) approve_context)"
  "decision (make_deployment_decision config_without_build approve_context) = ''approve''"
  "autonomous_execution (make_deployment_decision config_without_build approve_context)"
  by (simp_all add: make_deployment_decision_def example_config_def config_without_build_def
        overall_examples Let_def)

lemma conditional_decision:
  "make_deployment_decision (example_config []) conditional_context =
     \<lparr> decision = ''conditional'', confidence = 128733 / 160000,
       reasoning = [''Moderate quality score, conditions required''],
       conditions = [''enhanced_monitoring'', ''gradual_rollout''],
       recommended_actions = [''Monitor key metrics closely''],
       autonomous_execution = False \<rparr>"
  by (simp add: make_deployment_decision_def example_config_def overall_examples Let_def)

lemma conditional_context_fields:
  "environment conditional_context = ''production''"
  by (simp add: conditional_context_def assessed_context_def gather_deployment_context_def
        no_request_def Let_def)

subsection \<open>Stage validation and the monitoring stage\<close>

text \<open>
  A run with the stage executors of the source, on a configuration that has every
  descriptor: all stages are executed, the monitoring stage fails its validation, and
  the rollback follows.
\<close>

lemma builtin_run:
  assumes ex: "builtin_executors c"
    and cfg: "\<forall>stage \<in> set (deployment_stages context). has_descriptor config stage"
  shows "(\<exists>results. fst (execute_autonomous_deployment config c context d)
             = Inr (Failed ''monitoring'' True results)
           \<and> map_of results ''monitoring''
             = Some [(''monitoring_enabled'', PBool True), (''dashboards_created'', PInt 5),
                     (''alerts_configured'', PInt 12)])
      \<and> stages_executed (snd (execute_autonomous_deployment config c context d))
           = deployment_stages context
      \<and> filter is_rollback_event (snd (execute_autonomous_deployment config c context d))
           = (if environment context = ''production''
              then [ImmediateRollback, RollbackNotified]
              else [GradualRollback, RollbackNotified])"
proof -
  have e: "execute_validation_stage c = execute_validation_stage builtin"
    "execute_build_stage c = execute_build_stage builtin"
    "execute_test_stage c = execute_test_stage builtin"
    "execute_deploy_stage c = execute_deploy_stage builtin"
    "setup_monitoring c = setup_monitoring builtin"
    using ex by (simp_all add: builtin_executors_def)
  have d: "has_descriptor config VALIDATION" "has_descriptor config BUILD"
    "has_descriptor config TEST" "has_descriptor config DEPLOY_DEV"
    "has_descriptor config MONITORING"
    using cfg by (simp_all add: deployment_stages_def)
  have s: "environment context \<noteq> ''development'' \<Longrightarrow> has_descriptor config DEPLOY_STAGING"
    using cfg by (simp add: deployment_stages_def split: if_splits)
  have p: "environment context \<noteq> ''development'' \<Longrightarrow> environment context \<noteq> ''staging''
      \<Longrightarrow> has_descriptor config DEPLOY_PRODUCTION"
    using cfg by (simp add: deployment_stages_def)
  consider (dev) "environment context = ''development''"
    | (stg) "environment context = ''staging''"
    | (prod) "environment context \<noteq> ''development''" "environment context \<noteq> ''staging''"
    by blast
  then show ?thesis
  proof cases
    case dev
    then show ?thesis
      using d e
      by (simp add: execute_autonomous_deployment_def deployment_stages_def builtin_steps
            after_events_pair del: run_stages.simps)
  next
    case stg
    then show ?thesis
      using d s e
      by (simp add: execute_autonomous_deployment_def deployment_stages_def builtin_steps
            after_events_pair del: run_stages.simps)
  next
    case prod
    then show ?thesis
      using d s p e
      by (simp add: execute_autonomous_deployment_def deployment_stages_def builtin_steps
            after_events_pair stages_executed_append stages_executed_monitoring_loop
            rollback_events_monitoring_loop continuous_production_monitoring_def
            del: run_stages.simps)
  qed
qed

text \<open>
  Claim C9. For every stage other than validation, build and test, the monitoring stage
  included, the validation of a stage result returns the entry
  \<^verbatim>\<open>"deployment_successful"\<close> of the result, and \<^verbatim>\<open>False\<close> when there is none. The
  monitoring executor of the source returns a result without that entry. Hence every
  autonomous run with the executors of the source that reaches the monitoring stage
  (the configuration has the descriptors of its stages) executes all its stages, fails
  validation at the stage \<open>monitoring\<close> and initiates the rollback; it does not end in
  success.
\<close>

theorem c9_monitoring_stage_fails_validation:
  assumes other: "stage \<notin> {VALIDATION, BUILD, TEST}"
    and ex: "builtin_executors c"
    and cfg: "\<forall>s \<in> set (deployment_stages context). has_descriptor config s"
  shows "validate_stage_success stage result context
           = Inr (dict_get result ''deployment_successful'' (PBool False))
       \<and> (\<exists>r. setup_monitoring c context = Inr r
              \<and> map_of r ''deployment_successful'' = None
              \<and> validate_stage_success MONITORING r context = Inr (PBool False))
       \<and> (\<exists>results. fst (execute_autonomous_deployment config c context d)
              = Inr (Failed ''monitoring'' True results)
            \<and> map_of results ''monitoring''
              = Some [(''monitoring_enabled'', PBool True), (''dashboards_created'', PInt 5),
                      (''alerts_configured'', PInt 12)])
       \<and> stages_executed (snd (execute_autonomous_deployment config c context d))
           = deployment_stages context
       \<and> filter is_rollback_event (snd (execute_autonomous_deployment config c context d))
           = (if environment context = ''production''
              then [ImmediateRollback, RollbackNotified]
              else [GradualRollback, RollbackNotified])"
proof -
  have "setup_monitoring c context =
          Inr [(''monitoring_enabled'', PBool True), (''dashboards_created'', PInt 5),
               (''alerts_configured'', PInt 12)]"
    using ex by (simp add: builtin_executors_def builtin_def)
  then have "\<exists>r. setup_monitoring c context = Inr r
              \<and> map_of r ''deployment_successful'' = None
              \<and> validate_stage_success MONITORING r context = Inr (PBool False)"
    by (simp add: dict_get_def)
  then show ?thesis
    using validate_other_stage [OF other] builtin_run [OF ex cfg] by simp
qed

theorem c9_monitoring_stage_fails_validation_witness:
  "MONITORING \<notin> {VALIDATION, BUILD, TEST}
   \<and> builtin_executors builtin
   \<and> list_all (has_descriptor (example_config [])) (deployment_stages approve_context)
   \<and> validate_stage_success MONITORING
        [(''monitoring_enabled'', PBool True), (''dashboards_created'', PInt 5),
         (''alerts_configured'', PInt 12)] approve_context = Inr (PBool False)
   \<and> (\<exists>results. fst (execute_autonomous_deployment (example_config []) builtin approve_context
                (make_deployment_decision (example_config []) approve_context))
              = Inr (Failed ''monitoring'' True results))
   \<and> stages_executed (snd (execute_autonomous_deployment (example_config []) builtin
        approve_context (make_deployment_decision (example_config []) approve_context)))
       = [VALIDATION, BUILD, TEST, DEPLOY_DEV, DEPLOY_STAGING, DEPLOY_PRODUCTION, MONITORING]
   \<and> filter is_rollback_event (snd (execute_autonomous_deployment (example_config []) builtin
        approve_context (make_deployment_decision (example_config []) approve_context)))
       = [ImmediateRollback, RollbackNotified]"
proof -
  have a: "MONITORING \<notin> {VALIDATION, BUILD, TEST}" by simp
  have b: "builtin_executors builtin" by (simp add: builtin_executors_def)
  have c: "\<forall>s \<in> set (deployment_stages approve_context). has_descriptor (example_config []) s"
    by (simp add: deployment_stages_def has_descriptor_example_config)
  show ?thesis
    using a b c
      c9_monitoring_stage_fails_validation [OF a b c,
        where d = "make_deployment_decision (example_config []) approve_context"
        and result = "[(''monitoring_enabled'', PBool True), (''dashboards_created'', PInt 5),
         (''alerts_configured'', PInt 12)]"]
    by (auto simp: list_all_iff deployment_stages_def approve_context_fields dict_get_def)
qed

subsection \<open>Missing stage descriptors\<close>






subsection \<open>Production monitoring\<close>

lemma ticks_sampled_loop:
  assumes "sorted_wrt (<) ticks" and "i \<in> set ticks" and "tick_flagged c context i"
    and "\<forall>j \<in> set ticks. j < i \<longrightarrow> \<not> tick_flagged c context j"
  shows "ticks_sampled (monitoring_loop c context ticks) = filter (\<lambda>j. j \<le> i) ticks"
  using assms
proof (induction ticks)
  case Nil
  then show ?case by simp
next
  case (Cons t ticks)
  have later: "\<forall>j \<in> set ticks. t < j"
    using Cons.prems(1) by simp
  show ?case
  proof (cases "t = i")
    case True
    have "filter (\<lambda>j. j \<le> i) ticks = []"
      using later True by (auto simp: filter_empty_conv)
    with True Cons.prems(3) show ?thesis
      by (auto simp: tick_flagged_def Let_def)
  next
    case False
    then have mem: "i \<in> set ticks"
      using Cons.prems(2) by simp
    then have lt: "t < i"
      using later by blast
    then have quiet: "\<not> tick_flagged c context t"
      using Cons.prems(4) by simp
    have "ticks_sampled (monitoring_loop c context ticks) = filter (\<lambda>j. j \<le> i) ticks"
      using Cons.IH Cons.prems mem by simp
    with quiet lt show ?thesis
      by (simp add: tick_flagged_def Let_def)
  qed
qed

lemma run_stages_monitor_independent:
  "fst (run_stages config (c \<lparr> collect_realtime_metrics := f, assess_business_impact := g \<rparr>)
          context stages results)
     = fst (run_stages config c context stages results)
   \<and> stages_executed (snd (run_stages config
          (c \<lparr> collect_realtime_metrics := f, assess_business_impact := g \<rparr>)
          context stages results))
     = stages_executed (snd (run_stages config c context stages results))
   \<and> filter is_rollback_event (snd (run_stages config
          (c \<lparr> collect_realtime_metrics := f, assess_business_impact := g \<rparr>)
          context stages results))
     = filter is_rollback_event (snd (run_stages config c context stages results))"
proof (induction stages arbitrary: results)
  case Nil
  then show ?case by simp
next
  case (Cons stage rest)
  obtain a evs where ex: "execute_deployment_stage config c stage context = (a, evs)"
    by (cases "execute_deployment_stage config c stage context")
  show ?case
  proof (cases a)
    case (Inl e)
    with ex show ?thesis
      by (simp add: execute_deployment_stage_monitor_independent)
  next
    case (Inr r)
    show ?thesis
    proof (cases "validate_stage_success stage r context")
      case (Inl e)
      with ex Inr show ?thesis
        by (simp add: execute_deployment_stage_monitor_independent)
    next
      case v: (Inr v)
      show ?thesis
      proof (cases "truthy v")
        case False
        with ex Inr v show ?thesis
          by (simp add: execute_deployment_stage_monitor_independent
                initiate_intelligent_rollback_result)
      next
        case True
        with ex Inr v Cons.IH [of "AList.update (stage_value stage) r results"] show ?thesis
          by (simp add: execute_deployment_stage_monitor_independent fst_after_events
                snd_after_events stages_executed_append stages_executed_monitoring_loop
                rollback_events_monitoring_loop continuous_production_monitoring_def)
      qed
    qed
  qed
qed

lemma anomaly_execute:
  "execute_autonomous_deployment (example_config []) anomaly_collaborators approve_context d =
     (Inr (Success ''blue-green''
        [(''validation'', [(''validation_passed'', PBool True), (''checks_completed'', PInt 15)]),
         (''build'', [(''build_successful'', PBool True),
            (''artifacts_created'', PList [PStr ''frontend'', PStr ''api'', PStr ''quantum''])]),
         (''test'', [(''tests_passed'', PBool True), (''test_coverage'', PFloat 89.5),
            (''test_count'', PInt 1247)]),
         (''deploy_development'', [(''deployment_successful'', PBool True),
            (''strategy'', PStr ''blue-green'')]),
         (''deploy_staging'', [(''deployment_successful'', PBool True),
            (''strategy'', PStr ''blue-green'')]),
         (''deploy_production'', [(''deployment_successful'', PBool True),
            (''strategy'', PStr ''blue-green'')]),
         (''monitoring'', [(''deployment_successful'', PBool True),
            (''monitoring_enabled'', PBool True)])]
        True),
      [StageExecuted VALIDATION, StageExecuted BUILD, StageExecuted TEST,
       StageExecuted DEPLOY_DEV, StageExecuted DEPLOY_STAGING,
       StageExecuted DEPLOY_PRODUCTION, MetricsSampled 0, MetricsSampled 10,
       AnomalyHandled 10, StageExecuted MONITORING])"
proof -
  have e: "execute_validation_stage anomaly_collaborators = execute_validation_stage builtin"
    "execute_build_stage anomaly_collaborators = execute_build_stage builtin"
    "execute_test_stage anomaly_collaborators = execute_test_stage builtin"
    "execute_deploy_stage anomaly_collaborators = execute_deploy_stage builtin"
    by (simp_all add: anomaly_collaborators_def)
  have mon: "run_stages (example_config []) anomaly_collaborators approve_context [MONITORING]
      results =
      (Inr (Success ''blue-green''
         (AList.update ''monitoring'' [(''deployment_successful'', PBool True),
            (''monitoring_enabled'', PBool True)] results) True),
       [StageExecuted MONITORING])" for results
    by (simp add: execute_deployment_stage_present has_descriptor_example_config
          anomaly_collaborators_def dict_get_def after_events_pair approve_context_fields)
  show ?thesis
    by (simp add: execute_autonomous_deployment_def deployment_stages_def approve_context_fields
          builtin_steps e has_descriptor_example_config
          after_events_pair anomaly_monitoring mon
          del: run_stages.simps)
qed

lemma anomaly_run_eval:
  "out_result (fst anomaly_run) =
     Success ''blue-green''
        [(''validation'', [(''validation_passed'', PBool True), (''checks_completed'', PInt 15)]),
         (''build'', [(''build_successful'', PBool True),
            (''artifacts_created'', PList [PStr ''frontend'', PStr ''api'', PStr ''quantum''])]),
         (''test'', [(''tests_passed'', PBool True), (''test_coverage'', PFloat 89.5),
            (''test_count'', PInt 1247)]),
         (''deploy_development'', [(''deployment_successful'', PBool True),
            (''strategy'', PStr ''blue-green'')]),
         (''deploy_staging'', [(''deployment_successful'', PBool True),
            (''strategy'', PStr ''blue-green'')]),
         (''deploy_production'', [(''deployment_successful'', PBool True),
            (''strategy'', PStr ''blue-green'')]),
         (''monitoring'', [(''deployment_successful'', PBool True),
            (''monitoring_enabled'', PBool True)])]
        True"
  "snd (snd anomaly_run) =
      [StageExecuted VALIDATION, StageExecuted BUILD, StageExecuted TEST,
       StageExecuted DEPLOY_DEV, StageExecuted DEPLOY_STAGING,
       StageExecuted DEPLOY_PRODUCTION, MetricsSampled 0, MetricsSampled 10,
       AnomalyHandled 10, StageExecuted MONITORING]"
  by (simp_all add: anomaly_run_def orchestrate_deployment_empty_history Let_def
        assessed_context_anomaly approve_decision anomaly_execute)

lemma anomaly_tick_flagged:
  "tick_flagged anomaly_collaborators approve_context 10"
  "j < 10 \<Longrightarrow> \<not> tick_flagged anomaly_collaborators approve_context j"
  by (simp_all add: tick_flagged_def anomaly_collaborators_def builtin_def detect_anomaly_def
        approve_context_fields Let_def)

text \<open>
  Claim C1, as stated, fails. In a production run whose live sample is an anomaly at the
  second tick, the monitoring loop stops after that tick, yet the orchestrator goes on
  to the monitoring stage and the run ends in success: no stage is marked as failed
  and no rollback action is taken.
\<close>

theorem c1_anomaly_run_succeeds:
  "environment approve_context = ''production''
   \<and> tick_flagged anomaly_collaborators approve_context 10
   \<and> ticks_sampled (snd (snd anomaly_run)) = [0, 10]
   \<and> stages_executed (snd (snd anomaly_run)) =
       [VALIDATION, BUILD, TEST, DEPLOY_DEV, DEPLOY_STAGING, DEPLOY_PRODUCTION, MONITORING]
   \<and> result_status (out_result (fst anomaly_run)) = ''success''
   \<and> result_failed_stage (out_result (fst anomaly_run)) = None
   \<and> result_rollback_initiated (out_result (fst anomaly_run)) = None
   \<and> filter is_rollback_event (snd (snd anomaly_run)) = []"
  by (simp add: anomaly_run_eval anomaly_tick_flagged approve_context_fields)

text \<open>
  With the monitoring executor of the source the same run fails, but at the stage
  \<open>monitoring\<close>, whose executor runs after the anomaly, as it does in every run.
\<close>

lemma anomaly_run_with_builtin_monitoring:
  "\<exists>results. fst (execute_autonomous_deployment (example_config [])
        (anomaly_collaborators \<lparr> setup_monitoring := setup_monitoring builtin \<rparr>)
        approve_context d) = Inr (Failed ''monitoring'' True results)"
proof -
  have "builtin_executors (anomaly_collaborators \<lparr> setup_monitoring := setup_monitoring builtin \<rparr>)"
    by (simp add: builtin_executors_def anomaly_collaborators_def)
  moreover have "\<forall>stage \<in> set (deployment_stages approve_context).
      has_descriptor (example_config []) stage"
    by (simp add: deployment_stages_def has_descriptor_example_config)
  ultimately show ?thesis
    using builtin_run by blast
qed

text \<open>
  Claim C1, amended. For every run in which the monitor has a finding (an anomaly, or a
  business impact of a severity above 0.7) at a tick of the monitoring window and at
  no earlier tick, the monitoring loop samples the ticks up to that one and no later
  tick. The finding does not change the outcome: the result of the run, the stages
  executed and the rollback actions are those of the same run with any other source
  of live metrics and any other assessment of business impact.
\<close>

theorem c1_monitor_findings_leave_outcome:
  assumes tick: "i \<in> set monitoring_ticks"
    and flagged: "tick_flagged c context i"
    and first: "\<forall>j \<in> set monitoring_ticks. j < i \<longrightarrow> \<not> tick_flagged c context j"
  shows "ticks_sampled (continuous_production_monitoring c context)
           = filter (\<lambda>j. j \<le> i) monitoring_ticks
       \<and> fst (execute_autonomous_deployment config c context d)
           = fst (execute_autonomous_deployment config
                   (c \<lparr> collect_realtime_metrics := f, assess_business_impact := g \<rparr>) context d)
       \<and> stages_executed (snd (execute_autonomous_deployment config c context d))
           = stages_executed (snd (execute_autonomous_deployment config
                   (c \<lparr> collect_realtime_metrics := f, assess_business_impact := g \<rparr>) context d))
       \<and> filter is_rollback_event (snd (execute_autonomous_deployment config c context d))
           = filter is_rollback_event (snd (execute_autonomous_deployment config
                   (c \<lparr> collect_realtime_metrics := f, assess_business_impact := g \<rparr>) context d))"
proof -
  have "ticks_sampled (continuous_production_monitoring c context)
           = filter (\<lambda>j. j \<le> i) monitoring_ticks"
    unfolding continuous_production_monitoring_def
    using monitoring_ticks_sorted tick flagged first by (rule ticks_sampled_loop)
  moreover note run_stages_monitor_independent
    [where stages = "deployment_stages context" and results = "[]"]
  ultimately show ?thesis
    by (simp add: execute_autonomous_deployment_def)
qed

theorem c1_monitor_findings_leave_outcome_witness:
  "10 \<in> set monitoring_ticks
   \<and> tick_flagged anomaly_collaborators approve_context 10
   \<and> \<not> tick_flagged anomaly_collaborators approve_context 0
   \<and> ticks_sampled (continuous_production_monitoring anomaly_collaborators approve_context)
       = [0, 10]
   \<and> fst (execute_autonomous_deployment (example_config []) anomaly_collaborators
            approve_context (make_deployment_decision (example_config []) approve_context))
       = fst (execute_autonomous_deployment (example_config [])
            (anomaly_collaborators
               \<lparr> collect_realtime_metrics := collect_realtime_metrics builtin,
                 assess_business_impact := assess_business_impact builtin \<rparr>)
            approve_context (make_deployment_decision (example_config []) approve_context))"
proof -
  have a: "10 \<in> set monitoring_ticks"
    by (simp add: monitoring_ticks_eval)
  have b: "\<forall>j \<in> set monitoring_ticks. j < 10 \<longrightarrow>
             \<not> tick_flagged anomaly_collaborators approve_context j"
    by (simp add: anomaly_tick_flagged)
  show ?thesis
    using a c1_monitor_findings_leave_outcome [OF a anomaly_tick_flagged(1) b, where config = "example_config []"
        and d = "make_deployment_decision (example_config []) approve_context"
        and f = "collect_realtime_metrics builtin" and g = "assess_business_impact builtin"]
    by (simp add: anomaly_tick_flagged monitoring_ticks_eval)
qed

subsection \<open>Conditional decisions\<close>

text \<open>
  Claim C2, as stated, fails. The orchestration of a request whose decision is
  conditional records the conditions but executes no stage, although the pipeline of
  its context has seven stages.
\<close>

theorem c2_conditional_run_executes_nothing:
  "decision (out_decision (fst conditional_run)) = ''conditional''
   \<and> out_result (fst conditional_run)
       = ConditionalSuccess [''enhanced_monitoring'', ''gradual_rollout'']
   \<and> stages_executed (snd (snd conditional_run)) = []
   \<and> deployment_stages (out_context (fst conditional_run)) =
       [VALIDATION, BUILD, TEST, DEPLOY_DEV, DEPLOY_STAGING, DEPLOY_PRODUCTION, MONITORING]"
  by (simp add: conditional_run_def orchestrate_deployment_empty_history Let_def
        conditional_context_def [symmetric] conditional_decision execute_conditional_deployment_def
        deployment_stages_def conditional_context_fields)

text \<open>
  Claim C2, amended. For every orchestration that completes with a conditional decision,
  the result is \<open>conditional_success\<close> with the conditions of the decision recorded
  under \<^verbatim>\<open>conditions_met\<close>, and the run has no events: no stage executor is invoked,
  nothing is monitored and nothing is rolled back.
\<close>

theorem c2_conditional_decision:
  assumes run: "orchestrate_deployment config c deployment_history started recorded request
             = (Completed deployment_id deployment_decision result run_context, history', evs)"
    and cond: "decision deployment_decision = ''conditional''"
  shows "result = ConditionalSuccess (conditions deployment_decision)
       \<and> evs = [] \<and> stages_executed evs = []"
proof -
  let ?ctx0 = "gather_deployment_context c deployment_history request"
  let ?ctx = "?ctx0 \<lparr> risk_assessment := analyze_deployment_risk ?ctx0 \<rparr>"
  let ?d = "make_deployment_decision config ?ctx"
  show ?thesis
  proof (cases "decision ?d = ''approve'' \<and> autonomous_execution ?d")
    case True
    then show ?thesis
      using run cond
      by (auto simp: orchestrate_deployment_def Let_def split: sum.splits)
  next
    case False
    then show ?thesis
      using run cond
      by (auto simp: orchestrate_deployment_def Let_def execute_conditional_deployment_def
            split: sum.splits if_splits)
  qed
qed

lemma conditional_run_value:
  "orchestrate_deployment (example_config []) conditional_collaborators []
       ''20250101-000000'' ''2025-01-01T00:00:00'' no_request
   = (Completed ''deploy-20250101-000000''
        (make_deployment_decision (example_config []) conditional_context)
        (ConditionalSuccess [''enhanced_monitoring'', ''gradual_rollout''])
        conditional_context,
      record_deployment [] ''deploy-20250101-000000'' ''2025-01-01T00:00:00''
        conditional_context (make_deployment_decision (example_config []) conditional_context)
        (ConditionalSuccess [''enhanced_monitoring'', ''gradual_rollout'']),
      [])"
  by (simp add: orchestrate_deployment_empty_history Let_def
        conditional_context_def [symmetric] conditional_decision
        execute_conditional_deployment_def)

theorem c2_conditional_decision_witness:
  "decision (out_decision (fst conditional_run)) = ''conditional''
   \<and> out_result (fst conditional_run)
       = ConditionalSuccess (conditions (out_decision (fst conditional_run)))
   \<and> snd (snd conditional_run) = []"
proof -
  have cond: "decision (make_deployment_decision (example_config []) conditional_context)
      = ''conditional''"
    by (simp add: conditional_decision)
  show ?thesis
    using c2_conditional_decision [OF conditional_run_value cond]
    by (simp add: conditional_run_def conditional_run_value cond)
qed

end
